theory Spec2Isabelle
  imports Complex_Main "HOL-Library.Multiset" "HOL-Library.Monad_Syntax"
begin

section \<open>Numbers\<close>

text \<open>
  The program computes with JavaScript numbers. They are modelled as the reals: IEEE
  rounding and overflow are not represented. A value that is not a number is written
  explicitly where the program can produce one: a read outside a buffer gives
  \<open>undefined\<close> (and then \<open>NaN\<close> in arithmetic), modelled as \<open>None\<close>; an optional
  field that is absent is \<open>None\<close> as well.

  Where a divisor is zero the program yields an infinity or \<open>NaN\<close>, and the quotient of
  the model is not the program's number. A theorem that bounds or compares results
  carries the hypotheses under which every divisor it depends on is not zero; an equation
  that restates a quotient of the program holds of the program's own division too.
\<close>

section \<open>Mesh geometry analyzer (components/ThreeDViewer.tsx)\<close>

text \<open>
  The vectors, their dot and cross products and the buffer reads are those of the
  three.js library, which the component imports.
\<close>

datatype vec3 = Vec3 real real real

fun dot :: "vec3 \<Rightarrow> vec3 \<Rightarrow> real" where
  "dot (Vec3 ax ay az) (Vec3 bx by bz) = ax * bx + ay * by + az * bz"

fun cross :: "vec3 \<Rightarrow> vec3 \<Rightarrow> vec3" where
  "cross (Vec3 ax ay az) (Vec3 bx by bz) =
     Vec3 (ay * bz - az * by) (az * bx - ax * bz) (ax * by - ay * bx)"

definition signedVolumeOfTriangle :: "vec3 \<Rightarrow> vec3 \<Rightarrow> vec3 \<Rightarrow> real" where
  "signedVolumeOfTriangle p1 p2 p3 = dot p1 (cross p2 p3) / 6"

text \<open>
  A buffer geometry: the position attribute as its list of vertices (\<open>count\<close> is the
  length), and the optional index buffer.
\<close>

record BufferGeometry =
  isBufferGeometry :: bool
  position :: "vec3 list"
  index :: "nat list option"

text \<open>\<open>index.getX(i)\<close>: a typed-array read, \<open>undefined\<close> out of range.\<close>

definition getX :: "nat list \<Rightarrow> nat \<Rightarrow> nat option" where
  "getX ix i = (if i < length ix then Some (ix ! i) else None)"

text \<open>\<open>p.fromBufferAttribute(position, k)\<close>: the vertex \<open>k\<close>, or a vector of
  \<open>undefined\<close> components when \<open>k\<close> is \<open>undefined\<close> or out of range.\<close>

definition fromBufferAttribute :: "vec3 list \<Rightarrow> nat option \<Rightarrow> vec3 option" where
  "fromBufferAttribute pos k =
     (case k of None \<Rightarrow> None
      | Some j \<Rightarrow> if j < length pos then Some (pos ! j) else None)"

text \<open>\<open>volume += signedVolumeOfTriangle(p1, p2, p3)\<close>, \<open>None\<close> being \<open>NaN\<close>.\<close>

definition accumulate :: "real option \<Rightarrow> vec3 option \<Rightarrow> vec3 option \<Rightarrow> vec3 option \<Rightarrow> real option" where
  "accumulate volume p1 p2 p3 =
     do { v \<leftarrow> volume; a \<leftarrow> p1; b \<leftarrow> p2; c \<leftarrow> p3;
          Some (v + signedVolumeOfTriangle a b c) }"

text \<open>The loop \<open>for (let i = 0; i < index.count; i += 3)\<close>.\<close>

function volume_indexed :: "vec3 list \<Rightarrow> nat list \<Rightarrow> nat \<Rightarrow> real option \<Rightarrow> real option" where
  "volume_indexed pos ix i volume =
     (if i < length ix then
        volume_indexed pos ix (i + 3)
          (accumulate volume
             (fromBufferAttribute pos (getX ix i))
             (fromBufferAttribute pos (getX ix (i + 1)))
             (fromBufferAttribute pos (getX ix (i + 2))))
      else volume)"
  by pat_completeness auto
termination
  by (relation "measure (\<lambda>(pos, ix, i, volume). length ix - i)") auto

declare volume_indexed.simps [simp del]

text \<open>The loop \<open>for (let i = 0; i < position.count; i += 3)\<close>.\<close>

function volume_plain :: "vec3 list \<Rightarrow> nat \<Rightarrow> real option \<Rightarrow> real option" where
  "volume_plain pos i volume =
     (if i < length pos then
        volume_plain pos (i + 3)
          (accumulate volume
             (fromBufferAttribute pos (Some i))
             (fromBufferAttribute pos (Some (i + 1)))
             (fromBufferAttribute pos (Some (i + 2))))
      else volume)"
  by pat_completeness auto
termination
  by (relation "measure (\<lambda>(pos, i, volume). length pos - i)") auto

declare volume_plain.simps [simp del]

definition calculateVolume :: "BufferGeometry \<Rightarrow> real option" where
  "calculateVolume geometry =
     (if \<not> isBufferGeometry geometry then Some 0
      else map_option abs
        (case index geometry of
           Some ix \<Rightarrow> volume_indexed (position geometry) ix 0 (Some 0)
         | None \<Rightarrow> volume_plain (position geometry) 0 (Some 0)))"

text \<open>
  The effect that reports the geometry: \<open>totalVolumeMm3\<close> sums \<open>calculateVolume\<close> over
  the geometries of the loaded object, and \<open>volume_cm3\<close> is that sum over 1000.
\<close>

definition totalVolumeMm3 :: "BufferGeometry list \<Rightarrow> real option" where
  "totalVolumeMm3 geometries =
     fold (\<lambda>geom total. do { t \<leftarrow> total; v \<leftarrow> calculateVolume geom; Some (t + v) })
       geometries (Some 0)"

definition analyzed_volume_cm3 :: "BufferGeometry list \<Rightarrow> real option" where
  "analyzed_volume_cm3 geometries = map_option (\<lambda>t. t / 1000) (totalVolumeMm3 geometries)"

subsection \<open>Facets of a mesh, as the specification speaks of them\<close>

fun triples :: "'a list \<Rightarrow> ('a \<times> 'a \<times> 'a) list" where
  "triples (a # b # c # rest) = (a, b, c) # triples rest"
| "triples _ = []"

definition facets :: "BufferGeometry \<Rightarrow> (vec3 \<times> vec3 \<times> vec3) list" where
  "facets g =
     (case index g of
        None \<Rightarrow> triples (position g)
      | Some ix \<Rightarrow> map (\<lambda>(i, j, k). (position g ! i, position g ! j, position g ! k)) (triples ix))"

text \<open>A triangle mesh: whole triples only, and every index names a vertex.\<close>

definition triangle_mesh :: "BufferGeometry \<Rightarrow> bool" where
  "triangle_mesh g \<longleftrightarrow>
     isBufferGeometry g \<and>
     (case index g of
        None \<Rightarrow> length (position g) mod 3 = 0
      | Some ix \<Rightarrow> length ix mod 3 = 0 \<and> list_all (\<lambda>i. i < length (position g)) ix)"

definition facet_volume_sum :: "(vec3 \<times> vec3 \<times> vec3) list \<Rightarrow> real" where
  "facet_volume_sum fs = (\<Sum>(p1, p2, p3) \<leftarrow> fs. dot p1 (cross p2 p3) / 6)"


text \<open>A tetrahedron with three edges of 10 mm along the axes, as an indexed mesh.\<close>

definition tetrahedron :: BufferGeometry where
  "tetrahedron =
     \<lparr> isBufferGeometry = True,
       position = [Vec3 0 0 0, Vec3 10 0 0, Vec3 0 10 0, Vec3 0 0 10],
       index = Some [0, 2, 1, 0, 1, 3, 0, 3, 2, 1, 2, 3] \<rparr>"

section \<open>Translated and closed meshes\<close>

text \<open>A translation moves every vertex of the position buffer by the same vector.\<close>

fun vadd :: "vec3 \<Rightarrow> vec3 \<Rightarrow> vec3" where
  "vadd (Vec3 ax ay az) (Vec3 bx by bz) = Vec3 (ax + bx) (ay + by) (az + bz)"

definition translate :: "vec3 \<Rightarrow> BufferGeometry \<Rightarrow> BufferGeometry" where
  "translate t g = g\<lparr>position := map (vadd t) (position g)\<rparr>"

text \<open>
  The directed edges of the facets. A mesh is closed (consistently wound, without
  boundary) when every directed edge occurs as often as its reverse.
\<close>

fun facet_edges :: "vec3 \<times> vec3 \<times> vec3 \<Rightarrow> (vec3 \<times> vec3) list" where
  "facet_edges (p1, p2, p3) = [(p1, p2), (p2, p3), (p3, p1)]"

definition edges :: "(vec3 \<times> vec3 \<times> vec3) list \<Rightarrow> (vec3 \<times> vec3) list" where
  "edges fs = concat (map facet_edges fs)"

definition closed_mesh :: "(vec3 \<times> vec3 \<times> vec3) list \<Rightarrow> bool" where
  "closed_mesh fs =
     list_all (\<lambda>e. count_list (edges fs) e = count_list (edges fs) (prod.swap e)) (edges fs)"

definition edge_term :: "vec3 \<Rightarrow> vec3 \<times> vec3 \<Rightarrow> real" where
  "edge_term t e = dot t (cross (fst e) (snd e))"

section \<open>Print simulator (calculateQuoteLocally)\<close>

record dimensions =
  dim_x :: real
  dim_y :: real
  dim_z :: real

text \<open>
  \<open>ValidationResult\<close>: \<open>volume_cm3\<close> and \<open>dimensions_mm\<close> are optional fields; \<open>None\<close>
  is a field that holds no number (absent, or \<open>NaN\<close> from the analyzer).
\<close>

record ValidationResult =
  is_printable :: bool
  errors :: "string list"
  volume_cm3 :: "real option"
  dimensions_mm :: "dimensions option"
  is_repairable :: "bool option"

record Price =
  toman :: real
  usd :: real

text \<open>\<open>Material\<close>, without its display name and colours, which no computation reads.\<close>

record Material =
  material_id :: string
  price_per_kg :: Price
  density_g_cm3 :: real
  max_size_mm :: dimensions
  speed_modifier_percent :: real
  max_flow_rate_mm3_s :: "real option"

text \<open>\<open>to_hours\<close> of a tier is a number or \<open>Infinity\<close>.\<close>

datatype bound = Fin real | Infinity

record PricingTier =
  tier_id :: string
  from_hours :: real
  to_hours :: bound
  discount_percent :: real

text \<open>\<open>Settings\<close>, with the fields the simulator and the pricing read.\<close>

record Settings =
  pricingTiers :: "PricingTier list"
  machineRatePerHour :: Price
  speed_wall_mm_s :: real
  speed_infill_mm_s :: real
  speed_top_bottom_mm_s :: real
  speed_travel_mm_s :: real
  support_overhead_percent :: real
  acceleration_overhead_factor :: real

datatype js_error = Error string

record RawQuote =
  time_hours :: real
  material_grams :: real
  speedScalingFactor :: real

text \<open>The constants that \<open>calculateQuoteLocally\<close> binds on its way, under their names.\<close>

record quote_locals =
  line_width_mm :: real
  theoreticalFlowRate :: real
  scaling :: real
  effective_speed_wall_mm_s :: real
  effective_speed_infill_mm_s :: real
  effective_speed_top_bottom_mm_s :: real
  time_walls_s :: real
  time_infill_s :: real
  time_top_bottom_s :: real
  time_travel_s :: real
  total_print_time_s :: real
  time_support_s :: real
  base_time_s :: real
  final_time_s :: real
  model_volume_cm3 :: real
  support_volume_cm3 :: real
  result_time_hours :: real
  result_material_grams :: real

text \<open>JavaScript truthiness of an optional number: present and not zero.\<close>

definition truthy :: "real option \<Rightarrow> bool" where
  "truthy n = (case n of None \<Rightarrow> False | Some r \<Rightarrow> r \<noteq> 0)"

text \<open>The flow-rate speed adjustment (lines 164 to 173).\<close>

definition flow_speed_scaling :: "real option \<Rightarrow> real \<Rightarrow> real" where
  "flow_speed_scaling maxFlowRate theoretical =
     (if truthy maxFlowRate then
        (if theoretical > the maxFlowRate then the maxFlowRate / theoretical else 1)
      else 1)"

text \<open>The body of \<open>calculateQuoteLocally\<close> after its guard (lines 154 to 225).\<close>

definition quote_body ::
  "dimensions \<Rightarrow> real \<Rightarrow> Material \<Rightarrow> real \<Rightarrow> real \<Rightarrow> real \<Rightarrow> real \<Rightarrow> Settings \<Rightarrow> real \<Rightarrow> quote_locals" where
  "quote_body dims_mm total_volume_cm3 material nozzleDiameter layerHeight infillPercent
       wallCount settings supportPercent =
    (let line_width = nozzleDiameter * 1.2;
         material_density = density_g_cm3 material;
         speed_modifier = 1 - speed_modifier_percent material / 100;
         top_bottom_thickness_mm = nozzleDiameter * wallCount;
         maxFlowRate = max_flow_rate_mm3_s material;
         theoretical = layerHeight * line_width * speed_infill_mm_s settings;
         factor = flow_speed_scaling maxFlowRate theoretical;
         eff_wall = speed_wall_mm_s settings * factor;
         eff_infill = speed_infill_mm_s settings * factor;
         eff_top_bottom = speed_top_bottom_mm_s settings * factor;
         num_layers = dim_z dims_mm / layerHeight;
         avg_layer_area_mm2 = (total_volume_cm3 * 1000) / dim_z dims_mm;
         avg_perimeter_mm = 2 * (dim_x dims_mm + dim_y dims_mm);
         wall_path_length_per_layer_mm = avg_perimeter_mm * wallCount;
         wall_area_per_layer_mm2 = wall_path_length_per_layer_mm * line_width;
         infill_area_per_layer_mm2 = max 0 (avg_layer_area_mm2 - wall_area_per_layer_mm2);
         infill_path_length_per_layer_mm =
           (infill_area_per_layer_mm2 * (infillPercent / 100)) / line_width;
         num_top_bottom_layers = of_int \<lceil>top_bottom_thickness_mm / layerHeight\<rceil> * 2;
         solid_layer_path_length_mm = avg_layer_area_mm2 / line_width;
         t_walls = (wall_path_length_per_layer_mm * num_layers) / eff_wall;
         t_infill = (infill_path_length_per_layer_mm * num_layers) / eff_infill;
         t_top_bottom = (solid_layer_path_length_mm * num_top_bottom_layers) / eff_top_bottom;
         t_travel = num_layers * ((dim_x dims_mm + dim_y dims_mm) * 0.5) / speed_travel_mm_s settings;
         total_print = t_walls + t_infill + t_top_bottom;
         t_support = total_print * (supportPercent / 100);
         base_time = total_print + t_travel + t_support;
         final_time = base_time * acceleration_overhead_factor settings * speed_modifier;
         hours = final_time / 3600;
         wall_volume_mm3 = wall_path_length_per_layer_mm * line_width * layerHeight * num_layers;
         infill_volume_mm3 = infill_path_length_per_layer_mm * line_width * layerHeight * num_layers;
         top_bottom_volume_mm3 =
           solid_layer_path_length_mm * line_width * layerHeight * num_top_bottom_layers;
         model_volume = (wall_volume_mm3 + infill_volume_mm3 + top_bottom_volume_mm3) / 1000;
         support_volume = model_volume * (supportPercent / 100);
         final_volume_cm3 = model_volume + support_volume;
         grams = final_volume_cm3 * material_density
     in \<lparr> line_width_mm = line_width,
          theoreticalFlowRate = theoretical,
          scaling = factor,
          effective_speed_wall_mm_s = eff_wall,
          effective_speed_infill_mm_s = eff_infill,
          effective_speed_top_bottom_mm_s = eff_top_bottom,
          time_walls_s = t_walls,
          time_infill_s = t_infill,
          time_top_bottom_s = t_top_bottom,
          time_travel_s = t_travel,
          total_print_time_s = total_print,
          time_support_s = t_support,
          base_time_s = base_time,
          final_time_s = final_time,
          model_volume_cm3 = model_volume,
          support_volume_cm3 = support_volume,
          result_time_hours = hours,
          result_material_grams = grams \<rparr>)"

definition missing_geometry :: js_error where
  "missing_geometry = Error ''Cannot calculate quote without model geometry.''"

definition calculateQuoteLocally ::
  "ValidationResult \<Rightarrow> Material \<Rightarrow> real \<Rightarrow> real \<Rightarrow> real \<Rightarrow> real \<Rightarrow> Settings \<Rightarrow> real
     \<Rightarrow> js_error + RawQuote" where
  "calculateQuoteLocally validationResult material nozzleDiameter layerHeight infillPercent
       wallCount settings supportPercent =
     (if \<not> truthy (volume_cm3 validationResult) \<or> dimensions_mm validationResult = None
      then Inl missing_geometry
      else
        let l = quote_body (the (dimensions_mm validationResult))
                  (the (volume_cm3 validationResult)) material nozzleDiameter layerHeight
                  infillPercent wallCount settings supportPercent
        in Inr \<lparr> time_hours = result_time_hours l,
                 material_grams = result_material_grams l,
                 speedScalingFactor = scaling l \<rparr>)"

section \<open>Pricing engine (the finalPrice memo of App)\<close>

text \<open>\<open>QuoteData\<close>, the formatted quote that \<open>calculateAndSetQuote\<close> stores.\<close>

record QuoteData =
  time :: string
  material :: real
  price :: real
  material_cost :: real
  machine_time_cost :: real

datatype language = Fa | En

record price_result =
  finalPrice :: real
  discountAmount :: real
  totalMaterialCost :: real
  totalMachineCost :: real

text \<open>\<open>totalHours < tier.to_hours\<close>, where \<open>to_hours\<close> may be \<open>Infinity\<close>.\<close>

fun less_bound :: "real \<Rightarrow> bound \<Rightarrow> bool" where
  "less_bound h (Fin r) = (h < r)"
| "less_bound h Infinity = True"

definition tier_matches :: "real \<Rightarrow> PricingTier \<Rightarrow> bool" where
  "tier_matches totalHours tier \<longleftrightarrow>
     totalHours \<ge> from_hours tier \<and> less_bound totalHours (to_hours tier)"

text \<open>
  \<open>tiers.sort((a, b) => a.from_hours - b.from_hours)\<close>: the stable sort of the array
  by \<open>from_hours\<close>. It sorts the array in place and returns it.
\<close>

definition sort_tiers :: "PricingTier list \<Rightarrow> PricingTier list" where
  "sort_tiers tiers = sort_key from_hours tiers"

definition applicableTier :: "PricingTier list \<Rightarrow> real \<Rightarrow> PricingTier option" where
  "applicableTier tiers totalHours = find (tier_matches totalHours) (sort_tiers tiers)"

definition discountPercent :: "PricingTier list \<Rightarrow> real \<Rightarrow> real" where
  "discountPercent tiers totalHours =
     (case applicableTier tiers totalHours of Some tier \<Rightarrow> discount_percent tier | None \<Rightarrow> 0)"

text \<open>\<open>Math.ceil(p / 1000) * 1000\<close> and \<open>parseFloat(p.toFixed(2))\<close>.\<close>

definition ceil_thousand :: "real \<Rightarrow> real" where
  "ceil_thousand p = of_int \<lceil>p / 1000\<rceil> * 1000"

definition toFixed2 :: "real \<Rightarrow> real" where
  "toFixed2 p =
     (if \<bar>p\<bar> \<ge> 10 ^ 21 then p
      else sgn p * (of_int \<lfloor>\<bar>p\<bar> * 100 + 1 / 2\<rfloor> / 100))"

definition round_price :: "language \<Rightarrow> real \<Rightarrow> real" where
  "round_price lang p = (case lang of Fa \<Rightarrow> ceil_thousand p | En \<Rightarrow> toFixed2 p)"

definition zero_result :: price_result where
  "zero_result = \<lparr> finalPrice = 0, discountAmount = 0, totalMaterialCost = 0, totalMachineCost = 0 \<rparr>"

text \<open>
  The memo (lines 747 to 783). It reads \<open>rawQuote\<close>, \<open>quantity\<close>, \<open>quoteData\<close>,
  \<open>settings.pricingTiers\<close> and \<open>language\<close>; the second component of the result is the
  array \<open>settings.pricingTiers\<close> as the computation leaves it.
\<close>

definition finalPrice_memo ::
  "RawQuote option \<Rightarrow> real \<Rightarrow> QuoteData option \<Rightarrow> PricingTier list \<Rightarrow> language
     \<Rightarrow> price_result \<times> PricingTier list" where
  "finalPrice_memo rawQuote quantity quoteData tiers lang =
     (if rawQuote = None \<or> quantity = 0 \<or> quoteData = None then (zero_result, tiers)
      else
        let totalHours = time_hours (the rawQuote) * quantity;
            sorted_tiers = sort_tiers tiers;
            tier = find (tier_matches totalHours) sorted_tiers;
            percent = (case tier of Some t \<Rightarrow> discount_percent t | None \<Rightarrow> 0);
            singleMachineCost = machine_time_cost (the quoteData);
            singleMaterialCost = material_cost (the quoteData);
            machine_total = singleMachineCost * quantity;
            material_total = singleMaterialCost * quantity;
            calculatedDiscount = machine_total * (percent / 100);
            finalMachineCost = machine_total - calculatedDiscount;
            finalCalculatedPrice = material_total + finalMachineCost
        in (\<lparr> finalPrice = round_price lang finalCalculatedPrice,
              discountAmount = calculatedDiscount,
              totalMaterialCost = material_total,
              totalMachineCost = machine_total \<rparr>,
            sorted_tiers))"

subsection \<open>Well-formed tier tables, as the specification speaks of them\<close>

text \<open>
  In ascending order of \<open>from_hours\<close>, each tier ends where the next begins and the last
  one is unbounded; the first begins at zero hours or below. Then exactly one tier
  matches every non-negative number of hours.
\<close>

fun contiguous :: "PricingTier list \<Rightarrow> bool" where
  "contiguous [] = False"
| "contiguous [t] = (to_hours t = Infinity)"
| "contiguous (t # u # ts) =
     (to_hours t = Fin (from_hours u) \<and> from_hours t < from_hours u \<and> contiguous (u # ts))"

definition well_formed_tiers :: "PricingTier list \<Rightarrow> bool" where
  "well_formed_tiers tiers =
     (case sort_tiers tiers of
        [] \<Rightarrow> False
      | t # ts \<Rightarrow> from_hours t \<le> 0 \<and> contiguous (t # ts))"

definition discounts_ascending :: "PricingTier list \<Rightarrow> bool" where
  "discounts_ascending tiers = sorted (map discount_percent (sort_tiers tiers))"

definition mk_tier :: "string \<Rightarrow> real \<Rightarrow> bound \<Rightarrow> real \<Rightarrow> PricingTier" where
  "mk_tier i f t d = \<lparr> tier_id = i, from_hours = f, to_hours = t, discount_percent = d \<rparr>"

section \<open>Parameter ranges and sample inputs\<close>

text \<open>A maximum flow rate, when the material gives one, is not negative.\<close>

definition flow_rate_ok :: "Material \<Rightarrow> bool" where
  "flow_rate_ok m = (case max_flow_rate_mm3_s m of None \<Rightarrow> True | Some r \<Rightarrow> 0 \<le> r)"

text \<open>
  The physical range of the process parameters: positive nozzle diameter, layer height,
  wall count, speeds, acceleration factor and density, an infill that is not negative,
  a speed modifier below 100 percent and a flow rate that is not negative.
\<close>

definition physical_parameters ::
  "Material \<Rightarrow> real \<Rightarrow> real \<Rightarrow> real \<Rightarrow> real \<Rightarrow> Settings \<Rightarrow> bool" where
  "physical_parameters m nozzleDiameter layerHeight infillPercent wallCount settings \<longleftrightarrow>
     0 < nozzleDiameter \<and> 0 < layerHeight \<and> 0 \<le> infillPercent \<and> 0 < wallCount \<and>
     0 < speed_wall_mm_s settings \<and> 0 < speed_infill_mm_s settings \<and>
     0 < speed_top_bottom_mm_s settings \<and> 0 < speed_travel_mm_s settings \<and>
     0 < acceleration_overhead_factor settings \<and>
     0 < density_g_cm3 m \<and> speed_modifier_percent m < 100 \<and> flow_rate_ok m"

text \<open>\<open>DEFAULT_SETTINGS\<close> of settings.ts, and its first material.\<close>

definition DEFAULT_SETTINGS :: Settings where
  "DEFAULT_SETTINGS =
     \<lparr> pricingTiers =
         [mk_tier ''tier1'' 0 (Fin 500) 0,
          mk_tier ''tier2'' 500 (Fin 1500) 10,
          mk_tier ''tier3'' 1500 (Fin 2500) 20,
          mk_tier ''tier4'' 2500 Infinity 30],
       machineRatePerHour = \<lparr> toman = 110000, usd = 1.8 \<rparr>,
       speed_wall_mm_s = 70,
       speed_infill_mm_s = 100,
       speed_top_bottom_mm_s = 50,
       speed_travel_mm_s = 200,
       support_overhead_percent = 10,
       acceleration_overhead_factor = 1.15 \<rparr>"

definition material_pla :: Material where
  "material_pla =
     \<lparr> material_id = ''pla'',
       price_per_kg = \<lparr> toman = 1700000, usd = 28 \<rparr>,
       density_g_cm3 = 1.24,
       max_size_mm = \<lparr> dim_x = 380, dim_y = 380, dim_z = 380 \<rparr>,
       speed_modifier_percent = 0,
       max_flow_rate_mm3_s = Some 20 \<rparr>"

text \<open>The analysis of a cube of 100 mm: 1000 cubic centimetres.\<close>

definition cube_result :: ValidationResult where
  "cube_result =
     \<lparr> is_printable = True, errors = [],
       volume_cm3 = Some 1000,
       dimensions_mm = Some \<lparr> dim_x = 100, dim_y = 100, dim_z = 100 \<rparr>,
       is_repairable = Some False \<rparr>"

text \<open>An analysis that reports a volume of zero next to its dimensions.\<close>

definition flat_result :: ValidationResult where
  "flat_result =
     \<lparr> is_printable = True, errors = [],
       volume_cm3 = Some 0,
       dimensions_mm = Some \<lparr> dim_x = 50, dim_y = 40, dim_z = 0 \<rparr>,
       is_repairable = Some False \<rparr>"

text \<open>
  Materials as the admin panel can store them: a maximum flow rate of zero (its input
  falls back to 0), a negative one, and a speed modifier of 100 percent.
\<close>

definition material_zero_flow :: Material where
  "material_zero_flow = material_pla\<lparr>max_flow_rate_mm3_s := Some 0\<rparr>"

definition material_negative_flow :: Material where
  "material_negative_flow = material_pla\<lparr>max_flow_rate_mm3_s := Some (- 1)\<rparr>"

definition material_full_modifier :: Material where
  "material_full_modifier = material_pla\<lparr>speed_modifier_percent := 100\<rparr>"

text \<open>
  A quote of 600 machine hours with its costs in dollars, and tier tables: the two
  tiers of the discount scenario, the same two stored in the other order, and a table
  whose discount falls in the second tier.
\<close>

definition quote_600h :: RawQuote where
  "quote_600h = \<lparr> time_hours = 600, material_grams = 100, speedScalingFactor = 1 \<rparr>"

definition quote_data_600h :: QuoteData where
  "quote_data_600h =
     \<lparr> time = ''600 h 0 min'', material = 100, price = 1082.8,
       material_cost = 2.803, machine_time_cost = 1080 \<rparr>"

definition two_tiers :: "PricingTier list" where
  "two_tiers = [mk_tier ''tier1'' 0 (Fin 500) 0, mk_tier ''tier2'' 500 (Fin 1500) 10]"

definition unsorted_tiers :: "PricingTier list" where
  "unsorted_tiers = [mk_tier ''tier2'' 500 (Fin 1500) 10, mk_tier ''tier1'' 0 (Fin 500) 0]"

definition descending_tiers :: "PricingTier list" where
  "descending_tiers = [mk_tier ''tier1'' 0 (Fin 500) 10, mk_tier ''tier2'' 500 Infinity 0]"

section \<open>Properties of the geometry analyzer\<close>

lemma drop_three:
  assumes "i + 3 \<le> length xs"
  shows "drop i xs = xs ! i # xs ! (i + 1) # xs ! (i + 2) # drop (i + 3) xs"
proof -
  have "drop i xs = xs ! i # drop (Suc i) xs"
    using assms by (simp add: Cons_nth_drop_Suc)
  also have "drop (Suc i) xs = xs ! (i + 1) # drop (Suc (Suc i)) xs"
    using assms by (simp add: Cons_nth_drop_Suc)
  also have "drop (Suc (Suc i)) xs = xs ! (i + 2) # drop (i + 3) xs"
    using assms Cons_nth_drop_Suc [of "i + 2" xs] by (simp add: numeral_3_eq_3)
  finally show ?thesis .
qed

lemma next_triple: "i < n \<Longrightarrow> (n - i) mod 3 = 0 \<Longrightarrow> i + 3 \<le> n \<and> (n - (i + 3)) mod 3 = (0::nat)"
  by presburger

lemma facet_volume_sum_Cons:
  "facet_volume_sum ((a, b, c) # fs) = signedVolumeOfTriangle a b c + facet_volume_sum fs"
  by (simp add: facet_volume_sum_def signedVolumeOfTriangle_def)

lemma volume_plain_sum:
  "i \<le> length pos \<Longrightarrow> (length pos - i) mod 3 = 0 \<Longrightarrow>
   volume_plain pos i (Some v) = Some (v + facet_volume_sum (triples (drop i pos)))"
proof (induction pos i "Some v" arbitrary: v rule: volume_plain.induct)
  case (1 pos i)
  show ?case
  proof (cases "i < length pos")
    case False
    with "1.prems" show ?thesis by (subst volume_plain.simps) (simp add: facet_volume_sum_def)
  next
    case True
    from True "1.prems"(2) have len: "i + 3 \<le> length pos" and md: "(length pos - (i + 3)) mod 3 = 0"
      using next_triple [of i "length pos"] by simp_all
    let ?s = "signedVolumeOfTriangle (pos ! i) (pos ! (i + 1)) (pos ! (i + 2))"
    have acc: "accumulate (Some v) (fromBufferAttribute pos (Some i))
        (fromBufferAttribute pos (Some (i + 1))) (fromBufferAttribute pos (Some (i + 2)))
      = Some (v + ?s)"
      using len by (simp add: accumulate_def fromBufferAttribute_def)
    have "volume_plain pos i (Some v) = volume_plain pos (i + 3) (Some (v + ?s))"
      using True acc by (subst volume_plain.simps) simp
    also have "\<dots> = Some (v + ?s + facet_volume_sum (triples (drop (i + 3) pos)))"
      using "1.hyps" [OF True acc len md] .
    also have "\<dots> = Some (v + facet_volume_sum (triples (drop i pos)))"
      by (simp add: drop_three [OF len] facet_volume_sum_Cons)
    finally show ?thesis .
  qed
qed

lemma volume_indexed_sum:
  "i \<le> length ix \<Longrightarrow> (length ix - i) mod 3 = 0 \<Longrightarrow> list_all (\<lambda>k. k < length pos) ix \<Longrightarrow>
   volume_indexed pos ix i (Some v) =
     Some (v + facet_volume_sum
        (map (\<lambda>(i, j, k). (pos ! i, pos ! j, pos ! k)) (triples (drop i ix))))"
proof (induction pos ix i "Some v" arbitrary: v rule: volume_indexed.induct)
  case (1 pos ix i)
  show ?case
  proof (cases "i < length ix")
    case False
    with "1.prems" show ?thesis by (subst volume_indexed.simps) (simp add: facet_volume_sum_def)
  next
    case True
    from True "1.prems"(2) have len: "i + 3 \<le> length ix" and md: "(length ix - (i + 3)) mod 3 = 0"
      using next_triple [of i "length ix"] by simp_all
    have inr: "ix ! i < length pos" "ix ! (i + 1) < length pos" "ix ! (i + 2) < length pos"
      using len "1.prems"(3) by (simp_all add: list_all_length)
    let ?s = "signedVolumeOfTriangle (pos ! (ix ! i)) (pos ! (ix ! (i + 1))) (pos ! (ix ! (i + 2)))"
    have acc: "accumulate (Some v) (fromBufferAttribute pos (getX ix i))
        (fromBufferAttribute pos (getX ix (i + 1))) (fromBufferAttribute pos (getX ix (i + 2)))
      = Some (v + ?s)"
      using len inr by (simp add: accumulate_def fromBufferAttribute_def getX_def)
    have "volume_indexed pos ix i (Some v) = volume_indexed pos ix (i + 3) (Some (v + ?s))"
      using True acc by (subst volume_indexed.simps) simp
    also have "\<dots> = Some (v + ?s + facet_volume_sum
        (map (\<lambda>(i, j, k). (pos ! i, pos ! j, pos ! k)) (triples (drop (i + 3) ix))))"
      using "1.hyps" [OF True acc len md "1.prems"(3)] .
    also have "\<dots> = Some (v + facet_volume_sum
        (map (\<lambda>(i, j, k). (pos ! i, pos ! j, pos ! k)) (triples (drop i ix))))"
      by (simp add: drop_three [OF len] facet_volume_sum_Cons)
    finally show ?thesis .
  qed
qed

lemma calculateVolume_facets:
  assumes "triangle_mesh g"
  shows "calculateVolume g = Some \<bar>facet_volume_sum (facets g)\<bar>"
proof (cases "index g")
  case None
  with assms have "length (position g) mod 3 = 0" "isBufferGeometry g"
    by (simp_all add: triangle_mesh_def)
  then show ?thesis
    using None volume_plain_sum [of 0 "position g" 0]
    by (simp add: calculateVolume_def facets_def)
next
  case (Some ix)
  with assms have "length ix mod 3 = 0" "list_all (\<lambda>k. k < length (position g)) ix"
    "isBufferGeometry g"
    by (simp_all add: triangle_mesh_def)
  then show ?thesis
    using Some volume_indexed_sum [of 0 ix "position g" 0]
    by (simp add: calculateVolume_def facets_def)
qed


lemma analyzed_volume_single:
  "analyzed_volume_cm3 [g] = map_option (\<lambda>t. t / 1000) (calculateVolume g)"
  by (cases "calculateVolume g") (simp_all add: analyzed_volume_cm3_def totalVolumeMm3_def)

text \<open>
  C1. For a triangle mesh, indexed or given as consecutive position triples, the
  analyzer's \<open>volume_cm3\<close> is the absolute value of the sum over all facets
  \<open>(p1, p2, p3)\<close> of \<open>p1 \<cdot> (p2 \<times> p3) / 6\<close>, divided by 1000; a mesh with no facet has
  volume 0.
\<close>

theorem volume_cm3_formula:
  assumes "triangle_mesh g"
  shows "analyzed_volume_cm3 [g] =
           Some (\<bar>\<Sum>(p1, p2, p3) \<leftarrow> facets g. dot p1 (cross p2 p3) / 6\<bar> / 1000)
         \<and> (facets g = [] \<longrightarrow> analyzed_volume_cm3 [g] = Some 0)"
proof -
  have "analyzed_volume_cm3 [g] = Some (\<bar>facet_volume_sum (facets g)\<bar> / 1000)"
    by (simp only: analyzed_volume_single calculateVolume_facets [OF assms] option.map)
  then show ?thesis
    by (auto simp add: facet_volume_sum_def)
qed

theorem volume_cm3_formula_witness:
  "triangle_mesh tetrahedron \<and> analyzed_volume_cm3 [tetrahedron] = Some (1 / 6)"
proof -
  have h: "triangle_mesh tetrahedron"
    by (simp add: triangle_mesh_def tetrahedron_def)
  show ?thesis
    using h volume_cm3_formula [OF h] by (simp add: facets_def tetrahedron_def)
qed

text \<open>
  A loaded object with several geometries: the analyzer adds the absolute volumes of the
  geometries, one by one.
\<close>

lemma totalVolumeMm3_fold:
  "list_all triangle_mesh gs \<Longrightarrow>
   fold (\<lambda>geom total. do { t \<leftarrow> total; v \<leftarrow> calculateVolume geom; Some (t + v) }) gs (Some a) =
     Some (a + (\<Sum>g \<leftarrow> gs. \<bar>facet_volume_sum (facets g)\<bar>))"
proof (induction gs arbitrary: a)
  case Nil
  then show ?case by simp
next
  case (Cons g gs)
  then have "triangle_mesh g" "list_all triangle_mesh gs" by simp_all
  then show ?case
    by (simp add: calculateVolume_facets Cons.IH add.assoc)
qed

lemma analyzed_volume_many:
  "list_all triangle_mesh gs \<Longrightarrow>
   analyzed_volume_cm3 gs = Some ((\<Sum>g \<leftarrow> gs. \<bar>facet_volume_sum (facets g)\<bar>) / 1000)"
  by (simp add: analyzed_volume_cm3_def totalVolumeMm3_def totalVolumeMm3_fold)

subsection \<open>Translation\<close>

lemma dot_translated:
  "dot (vadd t a) (cross (vadd t b) (vadd t c)) =
     dot a (cross b c) + (dot t (cross a b) + dot t (cross b c) + dot t (cross c a))"
proof -
  obtain tx ty tz where t: "t = Vec3 tx ty tz" by (cases t)
  obtain ax ay az where a: "a = Vec3 ax ay az" by (cases a)
  obtain bx "by" bz where b: "b = Vec3 bx by bz" by (cases b)
  obtain cx cy cz where c: "c = Vec3 cx cy cz" by (cases c)
  show ?thesis
    unfolding t a b c vadd.simps cross.simps dot.simps by algebra
qed

lemma cross_swap: "dot t (cross b a) = - dot t (cross a b)"
proof -
  obtain tx ty tz where t: "t = Vec3 tx ty tz" by (cases t)
  obtain ax ay az where a: "a = Vec3 ax ay az" by (cases a)
  obtain bx "by" bz where b: "b = Vec3 bx by bz" by (cases b)
  show ?thesis
    unfolding t a b cross.simps dot.simps by algebra
qed

lemma edge_term_swap: "edge_term t (prod.swap e) = - edge_term t e"
  unfolding edge_term_def fst_swap snd_swap by (rule cross_swap)

lemma facet_volume_sum_translated:
  "facet_volume_sum (map (\<lambda>(a, b, c). (vadd t a, vadd t b, vadd t c)) fs) =
     facet_volume_sum fs + (\<Sum>e \<leftarrow> edges fs. edge_term t e) / 6"
proof (induction fs)
  case Nil
  then show ?case by (simp add: facet_volume_sum_def edges_def)
next
  case (Cons f fs)
  obtain a b c where f: "f = (a, b, c)" by (cases f)
  have "facet_volume_sum (map (\<lambda>(a, b, c). (vadd t a, vadd t b, vadd t c)) (f # fs)) =
      signedVolumeOfTriangle (vadd t a) (vadd t b) (vadd t c)
      + facet_volume_sum (map (\<lambda>(a, b, c). (vadd t a, vadd t b, vadd t c)) fs)"
    by (simp add: f facet_volume_sum_Cons)
  also have "\<dots> = signedVolumeOfTriangle a b c
      + (edge_term t (a, b) + edge_term t (b, c) + edge_term t (c, a)) / 6
      + (facet_volume_sum fs + (\<Sum>e \<leftarrow> edges fs. edge_term t e) / 6)"
    by (simp add: Cons.IH signedVolumeOfTriangle_def dot_translated edge_term_def add_divide_distrib)
  also have "\<dots> = facet_volume_sum (f # fs) + (\<Sum>e \<leftarrow> edges (f # fs). edge_term t e) / 6"
    by (simp add: f facet_volume_sum_Cons edges_def add_divide_distrib)
  finally show ?case .
qed

lemma count_image_swap: "count (image_mset prod.swap M) e = count M (prod.swap e)"
  by (induction M) auto

lemma swap_symmetric_mset:
  assumes "list_all (\<lambda>e. count_list es e = count_list es (prod.swap e)) es"
  shows "image_mset prod.swap (mset es) = mset es"
proof (rule multiset_eqI)
  fix e
  have sym: "count_list es x = count_list es (prod.swap x)" if "x \<in> set es" for x
    using assms that by (simp add: list_all_iff)
  have "count_list es (prod.swap e) = count_list es e"
  proof (cases "e \<in> set es")
    case True
    then show ?thesis using sym by simp
  next
    case False
    then have z: "count_list es e = 0" by (simp add: count_list_0_iff)
    have "prod.swap e \<notin> set es"
    proof
      assume "prod.swap e \<in> set es"
      then have "count_list es (prod.swap e) = count_list es (prod.swap (prod.swap e))"
        by (rule sym)
      with z have "count_list es (prod.swap e) = 0" by simp
      with \<open>prod.swap e \<in> set es\<close> show False by (simp add: count_list_0_iff)
    qed
    with z show ?thesis by (simp add: count_list_0_iff)
  qed
  then show "count (image_mset prod.swap (mset es)) e = count (mset es) e"
    by (simp add: count_image_swap count_mset)
qed

lemma sum_mset_negated:
  "sum_mset (image_mset (\<lambda>e. - f e) M) = - sum_mset (image_mset f M)" for f :: "'a \<Rightarrow> real"
  by (induction M) simp_all

lemma closed_edge_sum:
  assumes "closed_mesh fs"
  shows "(\<Sum>e \<leftarrow> edges fs. edge_term t e) = 0"
proof -
  let ?M = "mset (edges fs)"
  let ?S = "sum_mset (image_mset (edge_term t) ?M)"
  from assms have sw: "image_mset prod.swap ?M = ?M"
    unfolding closed_mesh_def by (rule swap_symmetric_mset)
  have "?S = sum_mset (image_mset (edge_term t) (image_mset prod.swap ?M))"
    by (simp only: sw)
  also have "\<dots> = sum_mset (image_mset (\<lambda>e. edge_term t (prod.swap e)) ?M)"
    by (simp add: multiset.map_comp comp_def)
  also have "\<dots> = sum_mset (image_mset (\<lambda>e. - edge_term t e) ?M)"
    by (simp only: edge_term_swap)
  also have "\<dots> = - ?S" by (rule sum_mset_negated)
  finally have "?S = 0" by simp
  moreover have "?S = (\<Sum>e \<leftarrow> edges fs. edge_term t e)"
    by (metis mset_map sum_mset_sum_list)
  ultimately show ?thesis by simp
qed

lemma triples_map: "triples (map f xs) = map (\<lambda>(a, b, c). (f a, f b, f c)) (triples xs)"
  by (induction xs rule: triples.induct) simp_all

lemma triples_in_range:
  "list_all P xs \<Longrightarrow> list_all (\<lambda>(a, b, c). P a \<and> P b \<and> P c) (triples xs)"
  by (induction xs rule: triples.induct) simp_all

lemma triangle_mesh_translate: "triangle_mesh g \<Longrightarrow> triangle_mesh (translate t g)"
  by (simp add: triangle_mesh_def translate_def split: option.splits)

lemma facets_translate:
  assumes "triangle_mesh g"
  shows "facets (translate t g) = map (\<lambda>(a, b, c). (vadd t a, vadd t b, vadd t c)) (facets g)"
proof (cases "index g")
  case None
  then show ?thesis by (simp add: facets_def translate_def triples_map)
next
  case (Some ix)
  with assms have "list_all (\<lambda>i. i < length (position g)) ix"
    by (simp add: triangle_mesh_def)
  then have "list_all (\<lambda>(i, j, k). i < length (position g) \<and> j < length (position g)
      \<and> k < length (position g)) (triples ix)"
    by (rule triples_in_range)
  then show ?thesis
    using Some by (auto simp add: facets_def translate_def list_all_iff)
qed

text \<open>
  C7. For a closed triangle mesh \<open>M\<close> and a translation \<open>T\<close>, the analyzer computes the same
  volume for \<open>M\<close> and for \<open>T(M)\<close>.
\<close>

theorem volume_translation_invariant:
  assumes "triangle_mesh g" and "closed_mesh (facets g)"
  shows "analyzed_volume_cm3 [translate t g] = analyzed_volume_cm3 [g]"
proof -
  have "facet_volume_sum (facets (translate t g)) = facet_volume_sum (facets g)"
    by (simp add: facets_translate [OF assms(1)] facet_volume_sum_translated
          closed_edge_sum [OF assms(2)])
  then show ?thesis
    by (simp add: analyzed_volume_single calculateVolume_facets [OF assms(1)]
          calculateVolume_facets [OF triangle_mesh_translate [OF assms(1)]])
qed

theorem volume_translation_invariant_witness:
  "triangle_mesh tetrahedron \<and> closed_mesh (facets tetrahedron)
   \<and> analyzed_volume_cm3 [translate (Vec3 5 (- 3) 7) tetrahedron] = Some (1 / 6)
   \<and> analyzed_volume_cm3 [tetrahedron] = Some (1 / 6)"
proof -
  have m: "triangle_mesh tetrahedron"
    by (simp add: triangle_mesh_def tetrahedron_def)
  have c: "closed_mesh (facets tetrahedron)"
    by (simp add: closed_mesh_def edges_def facets_def tetrahedron_def)
  have "facet_volume_sum (facets tetrahedron) = 500 / 3"
    by (simp add: facets_def tetrahedron_def facet_volume_sum_def)
  then have v: "analyzed_volume_cm3 [tetrahedron] = Some (1 / 6)"
    by (simp add: analyzed_volume_single calculateVolume_facets [OF m])
  show ?thesis
    using m c v volume_translation_invariant [OF m c, of "Vec3 5 (- 3) 7"] by simp
qed

section \<open>Properties of the print simulator\<close>

lemma flow_speed_scaling_range:
  assumes "case mf of None \<Rightarrow> True | Some r \<Rightarrow> 0 \<le> r"
  shows "0 < flow_speed_scaling mf th \<and> flow_speed_scaling mf th \<le> 1"
proof (cases mf)
  case None
  then show ?thesis by (simp add: flow_speed_scaling_def truthy_def)
next
  case (Some r)
  with assms have "0 \<le> r" by simp
  then show ?thesis
    using Some by (auto simp add: flow_speed_scaling_def truthy_def)
qed

lemma quote_body_fields:
  fixes d v m nd lh ip wc st sp
  defines "L \<equiv> quote_body d v m nd lh ip wc st sp"
  shows "scaling L = flow_speed_scaling (max_flow_rate_mm3_s m) (lh * (nd * 1.2) * speed_infill_mm_s st)"
    and "effective_speed_wall_mm_s L = speed_wall_mm_s st * scaling L"
    and "effective_speed_infill_mm_s L = speed_infill_mm_s st * scaling L"
    and "effective_speed_top_bottom_mm_s L = speed_top_bottom_mm_s st * scaling L"
    and "time_walls_s L =
           (2 * (dim_x d + dim_y d) * wc * (dim_z d / lh)) / effective_speed_wall_mm_s L"
    and "time_infill_s L =
           ((max 0 ((v * 1000) / dim_z d - 2 * (dim_x d + dim_y d) * wc * (nd * 1.2))
              * (ip / 100)) / (nd * 1.2) * (dim_z d / lh)) / effective_speed_infill_mm_s L"
    and "time_top_bottom_s L =
           (((v * 1000) / dim_z d / (nd * 1.2)) * (of_int \<lceil>nd * wc / lh\<rceil> * 2))
             / effective_speed_top_bottom_mm_s L"
    and "time_travel_s L = dim_z d / lh * ((dim_x d + dim_y d) * 0.5) / speed_travel_mm_s st"
    and "total_print_time_s L = time_walls_s L + time_infill_s L + time_top_bottom_s L"
    and "time_support_s L = total_print_time_s L * (sp / 100)"
    and "base_time_s L = total_print_time_s L + time_travel_s L + time_support_s L"
    and "final_time_s L =
           base_time_s L * acceleration_overhead_factor st * (1 - speed_modifier_percent m / 100)"
    and "result_time_hours L = final_time_s L / 3600"
    and "model_volume_cm3 L =
           (2 * (dim_x d + dim_y d) * wc * (nd * 1.2) * lh * (dim_z d / lh)
            + (max 0 ((v * 1000) / dim_z d - 2 * (dim_x d + dim_y d) * wc * (nd * 1.2))
                * (ip / 100)) / (nd * 1.2) * (nd * 1.2) * lh * (dim_z d / lh)
            + (v * 1000) / dim_z d / (nd * 1.2) * (nd * 1.2) * lh
                * (of_int \<lceil>nd * wc / lh\<rceil> * 2)) / 1000"
    and "support_volume_cm3 L = model_volume_cm3 L * (sp / 100)"
    and "result_material_grams L = (model_volume_cm3 L + support_volume_cm3 L) * density_g_cm3 m"
  unfolding L_def
  by (simp_all only: quote_body_def Let_def quote_locals.select_convs)


lemma scaling_range:
  assumes "flow_rate_ok m"
  shows "0 < scaling (quote_body d v m nd lh ip wc st sp)"
    and "scaling (quote_body d v m nd lh ip wc st sp) \<le> 1"
  using assms flow_speed_scaling_range [of "max_flow_rate_mm3_s m"]
  by (simp_all add: quote_body_fields(1) flow_rate_ok_def)

lemma print_time_positive:
  assumes par: "physical_parameters m nd lh ip wc st"
    and geo: "0 < v" "0 < dim_x d" "0 < dim_y d" "0 < dim_z d"
  shows "0 < total_print_time_s (quote_body d v m nd lh ip wc st sp)"
proof -
  let ?L = "quote_body d v m nd lh ip wc st sp"
  from par have p: "0 < nd" "0 < lh" "0 \<le> ip" "0 < wc" "0 < speed_wall_mm_s st"
      "0 < speed_infill_mm_s st" "0 < speed_top_bottom_mm_s st" "flow_rate_ok m"
    by (simp_all add: physical_parameters_def)
  have s: "0 < scaling ?L" using p(8) by (rule scaling_range)
  have "0 < 2 * (dim_x d + dim_y d) * wc * (dim_z d / lh)"
    using p geo by simp
  moreover have "0 < effective_speed_wall_mm_s ?L"
    using p s by (simp add: quote_body_fields(2))
  ultimately have walls: "0 < time_walls_s ?L"
    by (simp only: quote_body_fields(5) divide_pos_pos)
  have "0 \<le> (max 0 ((v * 1000) / dim_z d - 2 * (dim_x d + dim_y d) * wc * (nd * 1.2))
              * (ip / 100)) / (nd * 1.2) * (dim_z d / lh)"
    using p geo by simp
  moreover have "0 < effective_speed_infill_mm_s ?L"
    using p s by (simp add: quote_body_fields(3))
  ultimately have infill: "0 \<le> time_infill_s ?L"
    by (simp only: quote_body_fields(6) divide_nonneg_pos)
  have "0 < nd * wc / lh" using p by simp
  then have "0 < \<lceil>nd * wc / lh\<rceil>" by linarith
  then have "(0::real) \<le> of_int \<lceil>nd * wc / lh\<rceil>" by simp
  then have "0 \<le> ((v * 1000) / dim_z d / (nd * 1.2)) * (of_int \<lceil>nd * wc / lh\<rceil> * 2)"
    using p geo by (intro mult_nonneg_nonneg divide_nonneg_nonneg) simp_all
  moreover have "0 < effective_speed_top_bottom_mm_s ?L"
    using p s by (simp add: quote_body_fields(4))
  ultimately have tb: "0 \<le> time_top_bottom_s ?L"
    by (simp only: quote_body_fields(7) divide_nonneg_pos)
  have "0 < time_walls_s ?L + time_infill_s ?L + time_top_bottom_s ?L"
    using walls infill tb by linarith
  then show ?thesis
    by (simp only: quote_body_fields(9))
qed

lemma sum3_pos: "0 < A \<Longrightarrow> 0 \<le> B \<Longrightarrow> 0 \<le> C \<Longrightarrow> 0 < (A + B + C) / 1000"
  for A B C :: real
  by simp

lemma model_volume_positive:
  assumes par: "physical_parameters m nd lh ip wc st"
    and geo: "0 < v" "0 < dim_x d" "0 < dim_y d" "0 < dim_z d"
  shows "0 < model_volume_cm3 (quote_body d v m nd lh ip wc st sp)"
proof -
  from par have p: "0 < nd" "0 < lh" "0 \<le> ip" "0 < wc"
    by (simp_all add: physical_parameters_def)
  have a: "0 < 2 * (dim_x d + dim_y d) * wc * (nd * 1.2) * lh * (dim_z d / lh)"
    using p geo by simp
  have b: "0 \<le> (max 0 ((v * 1000) / dim_z d - 2 * (dim_x d + dim_y d) * wc * (nd * 1.2))
                * (ip / 100)) / (nd * 1.2) * (nd * 1.2) * lh * (dim_z d / lh)"
    using p geo by simp
  have "0 < nd * wc / lh" using p by simp
  then have "0 < \<lceil>nd * wc / lh\<rceil>" by linarith
  then have "(0::real) \<le> of_int \<lceil>nd * wc / lh\<rceil>" by simp
  then have c: "0 \<le> (v * 1000) / dim_z d / (nd * 1.2) * (nd * 1.2) * lh
                * (of_int \<lceil>nd * wc / lh\<rceil> * 2)"
    using p geo by (intro mult_nonneg_nonneg divide_nonneg_nonneg) simp_all
  show ?thesis
    unfolding quote_body_fields(14) by (rule sum3_pos [OF a b c])
qed

lemma sp_independent:
  "total_print_time_s (quote_body d v m nd lh ip wc st sp) =
   total_print_time_s (quote_body d v m nd lh ip wc st sp')"
  "time_travel_s (quote_body d v m nd lh ip wc st sp) =
   time_travel_s (quote_body d v m nd lh ip wc st sp')"
  "model_volume_cm3 (quote_body d v m nd lh ip wc st sp) =
   model_volume_cm3 (quote_body d v m nd lh ip wc st sp')"
  by (simp_all only: quote_body_fields)

lemma regroup_time:
  "(P + T + P * (s / 100)) * a * k / 3600 = (P * (1 + s / 100) + T) * (a * k / 3600)"
  for P T s a k :: real
  by (simp add: field_simps)

lemma regroup_grams: "(V + V * (s / 100)) * r = V * (1 + s / 100) * r" for V s r :: real
  by (simp add: field_simps)

lemma time_hours_support:
  "result_time_hours (quote_body d v m nd lh ip wc st sp) =
     (total_print_time_s (quote_body d v m nd lh ip wc st 0) * (1 + sp / 100)
      + time_travel_s (quote_body d v m nd lh ip wc st 0))
     * (acceleration_overhead_factor st * (1 - speed_modifier_percent m / 100) / 3600)"
proof -
  let ?L = "quote_body d v m nd lh ip wc st sp"
  have "result_time_hours ?L =
      (total_print_time_s ?L + time_travel_s ?L + total_print_time_s ?L * (sp / 100))
       * acceleration_overhead_factor st * (1 - speed_modifier_percent m / 100) / 3600"
    by (simp only: quote_body_fields(13,12,11,10))
  also have "total_print_time_s ?L = total_print_time_s (quote_body d v m nd lh ip wc st 0)"
    by (rule sp_independent)
  also have "time_travel_s ?L = time_travel_s (quote_body d v m nd lh ip wc st 0)"
    by (rule sp_independent)
  finally show ?thesis by (simp only: regroup_time)
qed

lemma grams_support:
  "result_material_grams (quote_body d v m nd lh ip wc st sp) =
     model_volume_cm3 (quote_body d v m nd lh ip wc st 0) * (1 + sp / 100) * density_g_cm3 m"
proof -
  let ?L = "quote_body d v m nd lh ip wc st sp"
  have "result_material_grams ?L =
      (model_volume_cm3 ?L + model_volume_cm3 ?L * (sp / 100)) * density_g_cm3 m"
    by (simp only: quote_body_fields(16,15))
  also have "model_volume_cm3 ?L = model_volume_cm3 (quote_body d v m nd lh ip wc st 0)"
    by (rule sp_independent)
  finally show ?thesis by (simp only: regroup_grams)
qed

lemma calculateQuoteLocally_Inr:
  assumes "calculateQuoteLocally vr m nd lh ip wc st sp = Inr q"
  shows "\<exists>v d. volume_cm3 vr = Some v \<and> v \<noteq> 0 \<and> dimensions_mm vr = Some d \<and>
           q = \<lparr> time_hours = result_time_hours (quote_body d v m nd lh ip wc st sp),
                 material_grams = result_material_grams (quote_body d v m nd lh ip wc st sp),
                 speedScalingFactor = scaling (quote_body d v m nd lh ip wc st sp) \<rparr>"
  using assms
  by (cases "volume_cm3 vr"; cases "dimensions_mm vr")
     (auto simp add: calculateQuoteLocally_def truthy_def Let_def split: if_splits)

lemma calculateQuoteLocally_geometry:
  assumes "volume_cm3 vr = Some v" "v \<noteq> 0" "dimensions_mm vr = Some d"
  shows "calculateQuoteLocally vr m nd lh ip wc st sp =
           Inr \<lparr> time_hours = result_time_hours (quote_body d v m nd lh ip wc st sp),
                 material_grams = result_material_grams (quote_body d v m nd lh ip wc st sp),
                 speedScalingFactor = scaling (quote_body d v m nd lh ip wc st sp) \<rparr>"
  using assms by (simp add: calculateQuoteLocally_def truthy_def Let_def)

lemma calculateQuoteLocally_Inl:
  "calculateQuoteLocally vr m nd lh ip wc st sp = Inl e \<longleftrightarrow>
     e = missing_geometry \<and>
     (volume_cm3 vr = None \<or> volume_cm3 vr = Some 0 \<or> dimensions_mm vr = None)"
  by (cases "volume_cm3 vr"; cases "dimensions_mm vr")
     (auto simp add: calculateQuoteLocally_def truthy_def Let_def)

text \<open>
  C2, as stated: the simulator raises the missing-geometry error only if \<open>volume_cm3\<close> or
  \<open>dimensions_mm\<close> is absent. It fails for a result that holds both, with a volume of
  zero.
\<close>

theorem zero_volume_raises:
  "volume_cm3 (cube_result\<lparr>volume_cm3 := Some 0\<rparr>) \<noteq> None
   \<and> dimensions_mm (cube_result\<lparr>volume_cm3 := Some 0\<rparr>) \<noteq> None
   \<and> calculateQuoteLocally (cube_result\<lparr>volume_cm3 := Some 0\<rparr>) material_pla 0.4 0.2 20 2
       DEFAULT_SETTINGS 0 = Inl missing_geometry"
  by (simp add: calculateQuoteLocally_def truthy_def cube_result_def)

text \<open>
  C2, amended. The simulator raises the missing-geometry error if and only if
  \<open>volume_cm3\<close> is absent or zero, or \<open>dimensions_mm\<close> is absent. When it fails it
  yields the error alone; when it returns, the quote is computed from the volume and the
  dimensions it was given, with no default in their place.
\<close>

theorem missing_geometry_iff:
  "(calculateQuoteLocally vr m nd lh ip wc st sp = Inl missing_geometry \<longleftrightarrow>
      volume_cm3 vr = None \<or> volume_cm3 vr = Some 0 \<or> dimensions_mm vr = None)
   \<and> (case calculateQuoteLocally vr m nd lh ip wc st sp of
        Inl e \<Rightarrow> e = missing_geometry
      | Inr q \<Rightarrow>
          \<exists>v d. volume_cm3 vr = Some v \<and> dimensions_mm vr = Some d \<and>
            q = \<lparr> time_hours = result_time_hours (quote_body d v m nd lh ip wc st sp),
                  material_grams = result_material_grams (quote_body d v m nd lh ip wc st sp),
                  speedScalingFactor = scaling (quote_body d v m nd lh ip wc st sp) \<rparr>)"
proof (cases "calculateQuoteLocally vr m nd lh ip wc st sp")
  case (Inl e)
  then show ?thesis
    using calculateQuoteLocally_Inl [of vr m nd lh ip wc st sp e] by simp
next
  case (Inr q)
  then show ?thesis
    using calculateQuoteLocally_Inr [OF Inr]
          calculateQuoteLocally_Inl [of vr m nd lh ip wc st sp missing_geometry]
    by auto
qed

theorem missing_geometry_iff_witness:
  "calculateQuoteLocally (cube_result\<lparr>dimensions_mm := None\<rparr>) material_pla 0.4 0.2 20 2
       DEFAULT_SETTINGS 0 = Inl missing_geometry
   \<and> calculateQuoteLocally cube_result material_pla 0.4 0.2 20 2 DEFAULT_SETTINGS 0
       \<noteq> Inl missing_geometry"
  using missing_geometry_iff [of "cube_result\<lparr>dimensions_mm := None\<rparr>" material_pla "0.4" "0.2" 20 2
          DEFAULT_SETTINGS 0]
        missing_geometry_iff [of cube_result material_pla "0.4" "0.2" 20 2 DEFAULT_SETTINGS 0]
  by (simp add: cube_result_def)

text \<open>
  C10. When \<open>volume_cm3\<close> is exactly zero, also with \<open>dimensions_mm\<close> present, the simulator
  raises the missing-geometry error, the same outcome as for an absent volume.
\<close>

theorem zero_volume_as_absent:
  assumes "volume_cm3 vr = Some 0"
  shows "calculateQuoteLocally vr m nd lh ip wc st sp = Inl missing_geometry
       \<and> calculateQuoteLocally vr m nd lh ip wc st sp =
           calculateQuoteLocally (vr\<lparr>volume_cm3 := None\<rparr>) m nd lh ip wc st sp"
  using assms by (simp add: calculateQuoteLocally_def truthy_def)

theorem zero_volume_as_absent_witness:
  "volume_cm3 flat_result = Some 0
   \<and> dimensions_mm flat_result \<noteq> None
   \<and> calculateQuoteLocally flat_result material_pla 0.4 0.2 20 2 DEFAULT_SETTINGS 10
       = Inl missing_geometry
   \<and> calculateQuoteLocally (flat_result\<lparr>volume_cm3 := None\<rparr>) material_pla 0.4 0.2 20 2
       DEFAULT_SETTINGS 10 = Inl missing_geometry"
proof -
  have h: "volume_cm3 flat_result = Some 0" by (simp add: flat_result_def)
  have d: "dimensions_mm flat_result \<noteq> None" by (simp add: flat_result_def)
  show ?thesis
    using h d zero_volume_as_absent [OF h, of material_pla "0.4" "0.2" 20 2 DEFAULT_SETTINGS 10]
    by auto
qed

lemma scaling_zero_flow:
  "max_flow_rate_mm3_s m = Some 0 \<or> max_flow_rate_mm3_s m = None \<Longrightarrow>
   scaling (quote_body d v m nd lh ip wc st sp) = 1"
  by (auto simp add: quote_body_fields(1) flow_speed_scaling_def truthy_def)

lemma flow_speed_scaling_none:
  "flow_speed_scaling (Some 0) t = 1" "flow_speed_scaling None t = 1"
  by (simp_all add: flow_speed_scaling_def truthy_def)

lemma material_flow_update:
  "density_g_cm3 (m\<lparr>max_flow_rate_mm3_s := r\<rparr>) = density_g_cm3 m"
  "speed_modifier_percent (m\<lparr>max_flow_rate_mm3_s := r\<rparr>) = speed_modifier_percent m"
  "max_flow_rate_mm3_s (m\<lparr>max_flow_rate_mm3_s := r\<rparr>) = r"
  by simp_all

lemma quote_body_flow_irrelevant:
  "quote_body d v (m\<lparr>max_flow_rate_mm3_s := Some 0\<rparr>) nd lh ip wc st sp =
   quote_body d v (m\<lparr>max_flow_rate_mm3_s := None\<rparr>) nd lh ip wc st sp"
  by (simp only: quote_body_def Let_def material_flow_update flow_speed_scaling_none)

text \<open>
  C4, as stated: the factor is \<open>max_flow_rate / (h \<times> (d \<times> 1.2) \<times> s)\<close> whenever the material
  specifies a maximum flow rate and the theoretical rate exceeds it, and it always lies
  in \<open>(0, 1]\<close>. With a maximum flow rate of zero the theoretical rate exceeds it and the
  factor is 1, not 0; with a negative one the factor is negative.
\<close>

theorem zero_flow_rate_not_derated:
  "max_flow_rate_mm3_s material_zero_flow = Some 0
   \<and> 0.2 * (0.4 * 1.2) * speed_infill_mm_s DEFAULT_SETTINGS > 0
   \<and> (\<exists>q. calculateQuoteLocally cube_result material_zero_flow 0.4 0.2 20 2 DEFAULT_SETTINGS 0
            = Inr q
          \<and> speedScalingFactor q \<noteq> 0 / (0.2 * (0.4 * 1.2) * speed_infill_mm_s DEFAULT_SETTINGS))
   \<and> (\<exists>q. calculateQuoteLocally cube_result material_negative_flow 0.4 0.2 20 2
            DEFAULT_SETTINGS 0 = Inr q
          \<and> speedScalingFactor q < 0)"
proof -
  have a: "scaling (quote_body d v material_zero_flow nd lh ip wc st sp) = 1" for d v nd lh ip wc st sp
    by (simp add: scaling_zero_flow material_zero_flow_def)
  have b: "scaling (quote_body d v material_negative_flow 0.4 0.2 ip wc DEFAULT_SETTINGS sp) < 0"
    for d v ip wc sp
    by (simp add: quote_body_fields(1) flow_speed_scaling_def truthy_def
          material_negative_flow_def DEFAULT_SETTINGS_def)
  show ?thesis
    using b [of "\<lparr> dim_x = 100, dim_y = 100, dim_z = 100 \<rparr>" 1000 20 2 0]
    by (simp add: calculateQuoteLocally_geometry [of _ 1000 "\<lparr> dim_x = 100, dim_y = 100, dim_z = 100 \<rparr>"]
          cube_result_def a)
       (simp add: material_zero_flow_def DEFAULT_SETTINGS_def)
qed

text \<open>
  C4, amended. For a material whose maximum flow rate, when present, is not negative:
  the factor is \<open>max_flow_rate / (h \<times> (d \<times> 1.2) \<times> s)\<close> when the maximum flow rate is
  present and not zero and the theoretical rate \<open>h \<times> (d \<times> 1.2) \<times> s\<close> exceeds it, and
  then it is below 1; it is 1 otherwise; it lies in \<open>(0, 1]\<close>; the wall, infill and
  top/bottom times divide by their speed times the factor, and the travel time by the
  travel speed alone.
\<close>

theorem speed_scaling_factor:
  assumes "flow_rate_ok m"
    and "calculateQuoteLocally vr m nd lh ip wc st sp = Inr q"
    and "volume_cm3 vr = Some v" and "dimensions_mm vr = Some d"
  shows "speedScalingFactor q =
           (case max_flow_rate_mm3_s m of
              None \<Rightarrow> 1
            | Some r \<Rightarrow>
                if r \<noteq> 0 \<and> lh * (nd * 1.2) * speed_infill_mm_s st > r
                then r / (lh * (nd * 1.2) * speed_infill_mm_s st) else 1)
       \<and> ((\<exists>r. max_flow_rate_mm3_s m = Some r \<and> r \<noteq> 0
              \<and> lh * (nd * 1.2) * speed_infill_mm_s st > r) \<longrightarrow> speedScalingFactor q < 1)
       \<and> 0 < speedScalingFactor q \<and> speedScalingFactor q \<le> 1
       \<and> time_walls_s (quote_body d v m nd lh ip wc st sp) =
           (2 * (dim_x d + dim_y d) * wc * (dim_z d / lh))
             / (speed_wall_mm_s st * speedScalingFactor q)
       \<and> time_infill_s (quote_body d v m nd lh ip wc st sp) =
           ((max 0 ((v * 1000) / dim_z d - 2 * (dim_x d + dim_y d) * wc * (nd * 1.2))
              * (ip / 100)) / (nd * 1.2) * (dim_z d / lh))
             / (speed_infill_mm_s st * speedScalingFactor q)
       \<and> time_top_bottom_s (quote_body d v m nd lh ip wc st sp) =
           (((v * 1000) / dim_z d / (nd * 1.2)) * (of_int \<lceil>nd * wc / lh\<rceil> * 2))
             / (speed_top_bottom_mm_s st * speedScalingFactor q)
       \<and> time_travel_s (quote_body d v m nd lh ip wc st sp) =
           dim_z d / lh * ((dim_x d + dim_y d) * 0.5) / speed_travel_mm_s st"
proof -
  let ?L = "quote_body d v m nd lh ip wc st sp"
  let ?t = "lh * (nd * 1.2) * speed_infill_mm_s st"
  from calculateQuoteLocally_Inr [OF assms(2)] assms(3,4)
  have q: "speedScalingFactor q = scaling ?L" by auto
  have f: "scaling ?L = flow_speed_scaling (max_flow_rate_mm3_s m) ?t"
    by (rule quote_body_fields(1))
  have formula: "speedScalingFactor q =
           (case max_flow_rate_mm3_s m of None \<Rightarrow> 1
            | Some r \<Rightarrow> if r \<noteq> 0 \<and> ?t > r then r / ?t else 1)"
    unfolding q f by (simp add: flow_speed_scaling_def truthy_def split: option.split)
  have below: "(\<exists>r. max_flow_rate_mm3_s m = Some r \<and> r \<noteq> 0 \<and> ?t > r) \<longrightarrow> speedScalingFactor q < 1"
  proof
    assume "\<exists>r. max_flow_rate_mm3_s m = Some r \<and> r \<noteq> 0 \<and> ?t > r"
    then obtain r where r: "max_flow_rate_mm3_s m = Some r" "r \<noteq> 0" "?t > r" by blast
    with assms(1) have "0 < r" by (simp add: flow_rate_ok_def)
    with r have "r / ?t < 1" by simp
    with r show "speedScalingFactor q < 1" unfolding formula by simp
  qed
  have range: "0 < speedScalingFactor q" "speedScalingFactor q \<le> 1"
    unfolding q using assms(1) by (rule scaling_range)+
  have times:
    "time_walls_s ?L = (2 * (dim_x d + dim_y d) * wc * (dim_z d / lh))
             / (speed_wall_mm_s st * speedScalingFactor q)"
    "time_infill_s ?L =
           ((max 0 ((v * 1000) / dim_z d - 2 * (dim_x d + dim_y d) * wc * (nd * 1.2))
              * (ip / 100)) / (nd * 1.2) * (dim_z d / lh))
             / (speed_infill_mm_s st * speedScalingFactor q)"
    "time_top_bottom_s ?L =
           (((v * 1000) / dim_z d / (nd * 1.2)) * (of_int \<lceil>nd * wc / lh\<rceil> * 2))
             / (speed_top_bottom_mm_s st * speedScalingFactor q)"
    "time_travel_s ?L = dim_z d / lh * ((dim_x d + dim_y d) * 0.5) / speed_travel_mm_s st"
    unfolding q by (simp_all only: quote_body_fields(2-8))
  from formula below range times show ?thesis by (intro conjI)
qed

theorem speed_scaling_factor_witness:
  "flow_rate_ok material_pla
   \<and> (\<exists>q. calculateQuoteLocally cube_result material_pla 0.6 0.36 20 2 DEFAULT_SETTINGS 0 = Inr q
          \<and> speedScalingFactor q = 20 / (0.36 * (0.6 * 1.2) * 100)
          \<and> 0 < speedScalingFactor q \<and> speedScalingFactor q < 1)"
proof -
  have h: "flow_rate_ok material_pla" by (simp add: flow_rate_ok_def material_pla_def)
  have v: "volume_cm3 cube_result = Some 1000"
    and d: "dimensions_mm cube_result = Some \<lparr> dim_x = 100, dim_y = 100, dim_z = 100 \<rparr>"
    by (simp_all add: cube_result_def)
  obtain q where q: "calculateQuoteLocally cube_result material_pla 0.6 0.36 20 2 DEFAULT_SETTINGS 0 = Inr q"
    using calculateQuoteLocally_geometry [OF v _ d] by simp
  have "speedScalingFactor q = 20 / (0.36 * (0.6 * 1.2) * 100)"
    using speed_scaling_factor [OF h q v d] by (simp add: material_pla_def DEFAULT_SETTINGS_def)
  moreover have "0 < speedScalingFactor q" "speedScalingFactor q \<le> 1"
    using speed_scaling_factor [OF h q v d] by simp_all
  ultimately show ?thesis using h q by simp
qed


text \<open>
  C5, as stated: a maximum flow rate that is present but zero makes the computation fail
  with an invalid-configuration error. The computation returns a quote, with the factor 1.
\<close>

theorem zero_flow_rate_returns:
  "max_flow_rate_mm3_s material_zero_flow = Some 0
   \<and> (\<exists>q. calculateQuoteLocally cube_result material_zero_flow 0.4 0.2 20 2 DEFAULT_SETTINGS 0
            = Inr q \<and> speedScalingFactor q = 1)"
  by (simp add: calculateQuoteLocally_geometry [of _ 1000 "\<lparr> dim_x = 100, dim_y = 100, dim_z = 100 \<rparr>"]
        cube_result_def scaling_zero_flow material_zero_flow_def)

text \<open>
  C5, amended. A maximum flow rate that is present but exactly zero is treated as an
  absent one: the outcome is the same, no error but the missing-geometry one can arise,
  and a returned quote has \<open>speed_scaling_factor = 1\<close>.
\<close>

theorem zero_flow_rate_as_absent:
  "calculateQuoteLocally vr (m\<lparr>max_flow_rate_mm3_s := Some 0\<rparr>) nd lh ip wc st sp =
     calculateQuoteLocally vr (m\<lparr>max_flow_rate_mm3_s := None\<rparr>) nd lh ip wc st sp
   \<and> (case calculateQuoteLocally vr (m\<lparr>max_flow_rate_mm3_s := Some 0\<rparr>) nd lh ip wc st sp of
        Inl e \<Rightarrow> e = missing_geometry
      | Inr q \<Rightarrow> speedScalingFactor q = 1)"
proof -
  have eq: "calculateQuoteLocally vr (m\<lparr>max_flow_rate_mm3_s := Some 0\<rparr>) nd lh ip wc st sp =
     calculateQuoteLocally vr (m\<lparr>max_flow_rate_mm3_s := None\<rparr>) nd lh ip wc st sp"
    by (simp only: calculateQuoteLocally_def quote_body_flow_irrelevant)
  have out: "case calculateQuoteLocally vr (m\<lparr>max_flow_rate_mm3_s := Some 0\<rparr>) nd lh ip wc st sp of
        Inl e \<Rightarrow> e = missing_geometry
      | Inr q \<Rightarrow> speedScalingFactor q = 1"
  proof (cases "calculateQuoteLocally vr (m\<lparr>max_flow_rate_mm3_s := Some 0\<rparr>) nd lh ip wc st sp")
    case (Inl e)
    then have "e = missing_geometry" by (simp add: calculateQuoteLocally_Inl)
    then show ?thesis using Inl by simp
  next
    case (Inr q)
    from calculateQuoteLocally_Inr [OF Inr] have "speedScalingFactor q = 1"
      by (auto simp add: scaling_zero_flow)
    then show ?thesis using Inr by simp
  qed
  from eq out show ?thesis by (rule conjI)
qed

theorem zero_flow_rate_as_absent_witness:
  "(\<exists>q. calculateQuoteLocally cube_result (material_pla\<lparr>max_flow_rate_mm3_s := None\<rparr>)
          0.6 0.36 20 2 DEFAULT_SETTINGS 0 = Inr q \<and> speedScalingFactor q = 1)"
proof -
  have "\<exists>q. calculateQuoteLocally cube_result (material_pla\<lparr>max_flow_rate_mm3_s := Some 0\<rparr>)
          0.6 0.36 20 2 DEFAULT_SETTINGS 0 = Inr q"
    by (simp add: calculateQuoteLocally_geometry [of _ 1000 "\<lparr> dim_x = 100, dim_y = 100, dim_z = 100 \<rparr>"]
        cube_result_def)
  then show ?thesis
    using zero_flow_rate_as_absent [of cube_result material_pla "0.6" "0.36" 20 2 DEFAULT_SETTINGS 0]
    by auto
qed


text \<open>
  C6, as stated: with positive volume and dimensions, raising \<open>support_percent\<close> from 0 to
  25 strictly increases \<open>time_hours\<close>. With a speed modifier of 100 percent both runs take
  zero hours.
\<close>

theorem full_speed_modifier_no_increase:
  "\<exists>q0 q25.
      calculateQuoteLocally cube_result material_full_modifier 0.4 0.2 20 2 DEFAULT_SETTINGS 0
        = Inr q0
    \<and> calculateQuoteLocally cube_result material_full_modifier 0.4 0.2 20 2 DEFAULT_SETTINGS 25
        = Inr q25
    \<and> time_hours q0 = 0 \<and> time_hours q25 = 0 \<and> \<not> time_hours q0 < time_hours q25"
proof -
  have "result_time_hours (quote_body d v material_full_modifier nd lh ip wc st sp) = 0"
    for d v nd lh ip wc st sp
    by (simp add: quote_body_fields(13) quote_body_fields(12) material_full_modifier_def)
  then show ?thesis
    by (simp add: calculateQuoteLocally_geometry [of _ 1000 "\<lparr> dim_x = 100, dim_y = 100, dim_z = 100 \<rparr>"]
          cube_result_def)
qed

text \<open>
  C6, amended. For positive volume and dimensions and process parameters in their physical
  range, the run with \<open>support_percent = 25\<close> has strictly larger \<open>time_hours\<close> and
  \<open>material_grams\<close> than the run with \<open>support_percent = 0\<close>; the support time is
  (wall + infill + top/bottom time) \<open>\<times> support_percent / 100\<close>, and the travel time is added
  beside it, outside its base.
\<close>

theorem support_increases_time_and_material:
  assumes "physical_parameters m nd lh ip wc st"
    and "volume_cm3 vr = Some v" and "0 < v"
    and "dimensions_mm vr = Some d" and "0 < dim_x d" and "0 < dim_y d" and "0 < dim_z d"
  shows "(\<exists>q0 q25.
            calculateQuoteLocally vr m nd lh ip wc st 0 = Inr q0
          \<and> calculateQuoteLocally vr m nd lh ip wc st 25 = Inr q25
          \<and> time_hours q0 < time_hours q25
          \<and> material_grams q0 < material_grams q25)
       \<and> time_support_s (quote_body d v m nd lh ip wc st sp) =
           (time_walls_s (quote_body d v m nd lh ip wc st sp)
            + time_infill_s (quote_body d v m nd lh ip wc st sp)
            + time_top_bottom_s (quote_body d v m nd lh ip wc st sp)) * (sp / 100)
       \<and> base_time_s (quote_body d v m nd lh ip wc st sp) =
           (time_walls_s (quote_body d v m nd lh ip wc st sp)
            + time_infill_s (quote_body d v m nd lh ip wc st sp)
            + time_top_bottom_s (quote_body d v m nd lh ip wc st sp))
           + time_travel_s (quote_body d v m nd lh ip wc st sp)
           + time_support_s (quote_body d v m nd lh ip wc st sp)"
proof -
  let ?P = "total_print_time_s (quote_body d v m nd lh ip wc st 0)"
  let ?T = "time_travel_s (quote_body d v m nd lh ip wc st 0)"
  let ?V = "model_volume_cm3 (quote_body d v m nd lh ip wc st 0)"
  let ?k = "acceleration_overhead_factor st * (1 - speed_modifier_percent m / 100) / 3600"
  have P: "0 < ?P"
    using assms(1,3,5,6,7) by (rule print_time_positive)
  have V: "0 < ?V"
    using assms(1,3,5,6,7) by (rule model_volume_positive)
  from assms(1) have "0 < acceleration_overhead_factor st" "speed_modifier_percent m < 100"
    and rho: "0 < density_g_cm3 m"
    by (simp_all add: physical_parameters_def)
  then have k: "0 < ?k" by simp
  have "?P * (1 + 0 / 100) + ?T < ?P * (1 + 25 / 100) + ?T"
    using P by simp
  then have "(?P * (1 + 0 / 100) + ?T) * ?k < (?P * (1 + 25 / 100) + ?T) * ?k"
    using k by (rule mult_strict_right_mono)
  then have hours: "result_time_hours (quote_body d v m nd lh ip wc st 0)
      < result_time_hours (quote_body d v m nd lh ip wc st 25)"
    by (simp only: time_hours_support)
  have "?V * (1 + 0 / 100) < ?V * (1 + 25 / 100)"
    using V by simp
  then have "?V * (1 + 0 / 100) * density_g_cm3 m < ?V * (1 + 25 / 100) * density_g_cm3 m"
    using rho by (rule mult_strict_right_mono)
  then have grams: "result_material_grams (quote_body d v m nd lh ip wc st 0)
      < result_material_grams (quote_body d v m nd lh ip wc st 25)"
    by (simp only: grams_support)
  from assms(3) have v0: "v \<noteq> 0" by simp
  have runs: "\<exists>q0 q25.
            calculateQuoteLocally vr m nd lh ip wc st 0 = Inr q0
          \<and> calculateQuoteLocally vr m nd lh ip wc st 25 = Inr q25
          \<and> time_hours q0 < time_hours q25
          \<and> material_grams q0 < material_grams q25"
    using hours grams
    by (simp add: calculateQuoteLocally_geometry [OF assms(2) v0 assms(4)])
  have sup: "time_support_s (quote_body d v m nd lh ip wc st sp) =
           (time_walls_s (quote_body d v m nd lh ip wc st sp)
            + time_infill_s (quote_body d v m nd lh ip wc st sp)
            + time_top_bottom_s (quote_body d v m nd lh ip wc st sp)) * (sp / 100)"
    by (simp only: quote_body_fields(10) quote_body_fields(9))
  have base: "base_time_s (quote_body d v m nd lh ip wc st sp) =
           (time_walls_s (quote_body d v m nd lh ip wc st sp)
            + time_infill_s (quote_body d v m nd lh ip wc st sp)
            + time_top_bottom_s (quote_body d v m nd lh ip wc st sp))
           + time_travel_s (quote_body d v m nd lh ip wc st sp)
           + time_support_s (quote_body d v m nd lh ip wc st sp)"
    by (simp only: quote_body_fields(11) quote_body_fields(9))
  from runs sup base show ?thesis by (intro conjI)
qed

theorem support_increases_time_and_material_witness:
  "physical_parameters material_pla 0.4 0.2 20 2 DEFAULT_SETTINGS
   \<and> (\<exists>q0 q25.
        calculateQuoteLocally cube_result material_pla 0.4 0.2 20 2 DEFAULT_SETTINGS 0 = Inr q0
      \<and> calculateQuoteLocally cube_result material_pla 0.4 0.2 20 2 DEFAULT_SETTINGS 25 = Inr q25
      \<and> time_hours q0 < time_hours q25
      \<and> material_grams q0 < material_grams q25)"
proof -
  have p: "physical_parameters material_pla 0.4 0.2 20 2 DEFAULT_SETTINGS"
    by (simp add: physical_parameters_def flow_rate_ok_def material_pla_def DEFAULT_SETTINGS_def)
  have v: "volume_cm3 cube_result = Some 1000"
    and d: "dimensions_mm cube_result = Some \<lparr> dim_x = 100, dim_y = 100, dim_z = 100 \<rparr>"
    by (simp_all add: cube_result_def)
  show ?thesis
    using p support_increases_time_and_material [OF p v _ d, of 0] by simp
qed

section \<open>Properties of the pricing engine\<close>

lemma find_sorted_least:
  "sorted (map f xs) \<Longrightarrow> find P xs = Some t \<Longrightarrow> u \<in> set xs \<Longrightarrow> P u \<Longrightarrow> f t \<le> f u"
proof (induction xs)
  case Nil
  then show ?case by simp
next
  case (Cons x xs)
  show ?case
  proof (cases "P x")
    case True
    with Cons.prems have "t = x" by simp
    with Cons.prems show ?thesis by auto
  next
    case False
    with Cons.prems have "find P xs = Some t" "u \<in> set xs" "sorted (map f xs)" by auto
    with Cons.IH Cons.prems(4) show ?thesis by simp
  qed
qed

lemma find_Some_member: "find P xs = Some t \<Longrightarrow> t \<in> set xs \<and> P t"
  by (induction xs) (auto split: if_splits)

lemma applicableTier_Some:
  assumes "applicableTier tiers h = Some t"
  shows "t \<in> set tiers \<and> tier_matches h t \<and>
         (\<forall>u \<in> set tiers. tier_matches h u \<longrightarrow> from_hours t \<le> from_hours u)"
proof -
  let ?s = "sort_key from_hours tiers"
  from assms have f: "find (tier_matches h) ?s = Some t"
    by (simp add: applicableTier_def sort_tiers_def)
  then have "t \<in> set ?s" "tier_matches h t"
    using find_Some_member [of "tier_matches h" ?s t] by simp_all
  moreover have "from_hours t \<le> from_hours u" if "u \<in> set tiers" "tier_matches h u" for u
    using find_sorted_least [of from_hours ?s "tier_matches h" t u] f that by simp
  ultimately show ?thesis by simp
qed

lemma applicableTier_None:
  assumes "applicableTier tiers h = None"
  shows "\<forall>t \<in> set tiers. \<not> tier_matches h t"
  using assms by (simp add: applicableTier_def sort_tiers_def find_None_iff)

lemma round_price_zero: "round_price lang 0 = 0"
  by (cases lang) (simp_all add: round_price_def ceil_thousand_def toFixed2_def)

lemma finalPrice_memo_result:
  "fst (finalPrice_memo (Some rq) q (Some qd) tiers lang) =
     \<lparr> finalPrice = round_price lang
         (material_cost qd * q +
          (machine_time_cost qd * q
           - machine_time_cost qd * q * (discountPercent tiers (time_hours rq * q) / 100))),
       discountAmount =
         machine_time_cost qd * q * (discountPercent tiers (time_hours rq * q) / 100),
       totalMaterialCost = material_cost qd * q,
       totalMachineCost = machine_time_cost qd * q \<rparr>"
  by (simp add: finalPrice_memo_def Let_def discountPercent_def applicableTier_def
        zero_result_def round_price_zero)

lemma finalPrice_memo_tiers:
  "snd (finalPrice_memo rawQuote q quoteData tiers lang) =
     (if rawQuote = None \<or> q = 0 \<or> quoteData = None then tiers else sort_key from_hours tiers)"
  by (simp add: finalPrice_memo_def Let_def sort_tiers_def)

lemma discountPercent_two_tiers: "discountPercent two_tiers 600 = 10"
  by (simp add: discountPercent_def applicableTier_def sort_tiers_def two_tiers_def mk_tier_def
        tier_matches_def)


text \<open>
  C3, as stated: the final price returned is (material cost \<open>\<times> q\<close>) + (machine cost \<open>\<times> q\<close>
  \<open>-\<close> discount amount). The price returned is that sum after the currency rounding: for
  the discount scenario with a material cost of 2.803 dollars it is 974.80, not 974.803.
\<close>

theorem final_price_is_rounded:
  "finalPrice (fst (finalPrice_memo (Some quote_600h) 1 (Some quote_data_600h) two_tiers En))
     = 974.8
   \<and> material_cost quote_data_600h * 1
       + (machine_time_cost quote_data_600h * 1
          - discountAmount
              (fst (finalPrice_memo (Some quote_600h) 1 (Some quote_data_600h) two_tiers En)))
     = 974.803"
  by (simp add: finalPrice_memo_result discountPercent_two_tiers quote_600h_def
        quote_data_600h_def round_price_def toFixed2_def)

text \<open>
  C3, amended. For every quantity \<open>q\<close>, simulation result and tier table: the tier selected
  is the first one in ascending order of \<open>from_hours\<close> whose interval
  \<open>[from_hours, to_hours)\<close> contains \<open>time_hours \<times> q\<close>, and the discount is 0 percent when
  no tier matches; the discount amount is the machine cost across the quantity times
  \<open>discount_percent / 100\<close>, and the material cost enters the price undiscounted; the
  final price is the currency rounding of (material cost \<open>\<times> q\<close>) + (machine cost \<open>\<times> q\<close>
  \<open>-\<close> discount amount). With the tiers \<open>{0, 500, 0%}, {500, 1500, 10%}\<close>, 600 hours and
  quantity 1 the discount is 10 percent of the machine cost.
\<close>

theorem final_price_formula:
  "discountAmount (fst (finalPrice_memo (Some rq) q (Some qd) tiers lang)) =
     machine_time_cost qd * q * (discountPercent tiers (time_hours rq * q) / 100)
   \<and> totalMachineCost (fst (finalPrice_memo (Some rq) q (Some qd) tiers lang)) =
       machine_time_cost qd * q
   \<and> totalMaterialCost (fst (finalPrice_memo (Some rq) q (Some qd) tiers lang)) =
       material_cost qd * q
   \<and> finalPrice (fst (finalPrice_memo (Some rq) q (Some qd) tiers lang)) =
       round_price lang
         (material_cost qd * q
          + (machine_time_cost qd * q
             - discountAmount (fst (finalPrice_memo (Some rq) q (Some qd) tiers lang))))
   \<and> (case applicableTier tiers (time_hours rq * q) of
        None \<Rightarrow>
          (\<forall>t \<in> set tiers. \<not> tier_matches (time_hours rq * q) t)
          \<and> discountPercent tiers (time_hours rq * q) = 0
      | Some t \<Rightarrow>
          t \<in> set tiers \<and> tier_matches (time_hours rq * q) t
          \<and> (\<forall>u \<in> set tiers. tier_matches (time_hours rq * q) u
                \<longrightarrow> from_hours t \<le> from_hours u)
          \<and> discountPercent tiers (time_hours rq * q) = discount_percent t)
   \<and> discountAmount
       (fst (finalPrice_memo (Some (rq\<lparr>time_hours := 600\<rparr>)) 1 (Some qd) two_tiers lang)) =
       machine_time_cost qd * (10 / 100)
   \<and> totalMaterialCost
       (fst (finalPrice_memo (Some (rq\<lparr>time_hours := 600\<rparr>)) 1 (Some qd) two_tiers lang)) =
       material_cost qd"
proof -
  let ?h = "time_hours rq * q"
  have tier: "case applicableTier tiers ?h of
        None \<Rightarrow> (\<forall>t \<in> set tiers. \<not> tier_matches ?h t) \<and> discountPercent tiers ?h = 0
      | Some t \<Rightarrow>
          t \<in> set tiers \<and> tier_matches ?h t
          \<and> (\<forall>u \<in> set tiers. tier_matches ?h u \<longrightarrow> from_hours t \<le> from_hours u)
          \<and> discountPercent tiers ?h = discount_percent t"
  proof (cases "applicableTier tiers ?h")
    case None
    then show ?thesis
      using applicableTier_None [OF None] by (simp add: discountPercent_def)
  next
    case (Some t)
    then show ?thesis
      using applicableTier_Some [OF Some] by (simp add: discountPercent_def)
  qed
  have scen: "discountAmount
       (fst (finalPrice_memo (Some (rq\<lparr>time_hours := 600\<rparr>)) 1 (Some qd) two_tiers lang)) =
       machine_time_cost qd * (10 / 100)"
    "totalMaterialCost
       (fst (finalPrice_memo (Some (rq\<lparr>time_hours := 600\<rparr>)) 1 (Some qd) two_tiers lang)) =
       material_cost qd"
    by (simp_all add: finalPrice_memo_result discountPercent_two_tiers)
  have gen: "discountAmount (fst (finalPrice_memo (Some rq) q (Some qd) tiers lang)) =
     machine_time_cost qd * q * (discountPercent tiers ?h / 100)"
    "totalMachineCost (fst (finalPrice_memo (Some rq) q (Some qd) tiers lang)) =
       machine_time_cost qd * q"
    "totalMaterialCost (fst (finalPrice_memo (Some rq) q (Some qd) tiers lang)) =
       material_cost qd * q"
    "finalPrice (fst (finalPrice_memo (Some rq) q (Some qd) tiers lang)) =
       round_price lang
         (material_cost qd * q
          + (machine_time_cost qd * q
             - discountAmount (fst (finalPrice_memo (Some rq) q (Some qd) tiers lang))))"
    by (simp_all add: finalPrice_memo_result)
  from gen tier scen show ?thesis by (intro conjI)
qed

theorem final_price_formula_witness:
  "discountAmount
     (fst (finalPrice_memo (Some quote_600h) 3 (Some quote_data_600h)
            (pricingTiers DEFAULT_SETTINGS) En)) = 648
   \<and> totalMaterialCost
     (fst (finalPrice_memo (Some quote_600h) 3 (Some quote_data_600h)
            (pricingTiers DEFAULT_SETTINGS) En)) = 8.409
   \<and> finalPrice
     (fst (finalPrice_memo (Some quote_600h) 3 (Some quote_data_600h)
            (pricingTiers DEFAULT_SETTINGS) En)) = 2600.41"
proof -
  have d: "discountPercent (pricingTiers DEFAULT_SETTINGS) 1800 = 20"
    by (simp add: discountPercent_def applicableTier_def sort_tiers_def DEFAULT_SETTINGS_def
          mk_tier_def tier_matches_def)
  show ?thesis
    using final_price_formula [of quote_600h 3 quote_data_600h "pricingTiers DEFAULT_SETTINGS" En]
    by (simp add: quote_600h_def quote_data_600h_def d round_price_def toFixed2_def)
qed

text \<open>
  The table that well-formedness describes has exactly one matching tier for every
  non-negative number of hours.
\<close>

lemma contiguous_from_least:
  "contiguous ts \<Longrightarrow> x \<in> set ts \<Longrightarrow> from_hours (hd ts) \<le> from_hours x"
proof (induction ts rule: contiguous.induct)
  case (3 t u ts)
  then show ?case by (cases "x = t") auto
qed simp_all

lemma contiguous_unique_match:
  "contiguous ts \<Longrightarrow> from_hours (hd ts) \<le> h \<Longrightarrow> \<exists>!t. t \<in> set ts \<and> tier_matches h t"
proof (induction ts rule: contiguous.induct)
  case 1
  then show ?case by simp
next
  case (2 t)
  then show ?case by (auto simp add: tier_matches_def)
next
  case (3 t u ts)
  from "3.prems"(1) have to: "to_hours t = Fin (from_hours u)" and lt: "from_hours t < from_hours u"
    and rest: "contiguous (u # ts)"
    by simp_all
  show ?case
  proof (cases "h < from_hours u")
    case True
    have "\<not> tier_matches h x" if "x \<in> set (u # ts)" for x
      using contiguous_from_least [OF rest that] True by (simp add: tier_matches_def)
    moreover have "tier_matches h t"
      using True "3.prems"(2) to by (simp add: tier_matches_def)
    ultimately show ?thesis by auto
  next
    case False
    then have "\<not> tier_matches h t" using to by (simp add: tier_matches_def)
    moreover from False have "from_hours (hd (u # ts)) \<le> h" by simp
    from "3.IH" [OF rest this] have "\<exists>!x. x \<in> set (u # ts) \<and> tier_matches h x" .
    ultimately show ?thesis by auto
  qed
qed

lemma well_formed_one_match:
  assumes "well_formed_tiers tiers" and "0 \<le> h"
  shows "\<exists>!t. t \<in> set tiers \<and> tier_matches h t"
proof -
  from assms(1) obtain t ts where s: "sort_tiers tiers = t # ts"
    and f: "from_hours t \<le> 0" and c: "contiguous (t # ts)"
    by (auto simp add: well_formed_tiers_def split: list.splits)
  from f assms(2) have "from_hours (hd (t # ts)) \<le> h" by simp
  from contiguous_unique_match [OF c this]
  have "\<exists>!x. x \<in> set (sort_tiers tiers) \<and> tier_matches h x" by (simp add: s)
  then show ?thesis by (simp add: sort_tiers_def)
qed

lemma contiguous_lookup:
  "contiguous ts \<Longrightarrow> sorted (map discount_percent ts) \<Longrightarrow> from_hours (hd ts) \<le> h1 \<Longrightarrow>
   h1 \<le> h2 \<Longrightarrow>
   \<exists>a b. find (tier_matches h1) ts = Some a \<and> find (tier_matches h2) ts = Some b
       \<and> discount_percent a \<le> discount_percent b"
proof (induction ts arbitrary: h1 rule: contiguous.induct)
  case 1
  then show ?case by simp
next
  case (2 t)
  then show ?case by (simp add: tier_matches_def)
next
  case (3 t u ts)
  from "3.prems"(1) have to: "to_hours t = Fin (from_hours u)" and lt: "from_hours t < from_hours u"
    and rest: "contiguous (u # ts)"
    by simp_all
  from "3.prems"(2) have srt: "sorted (map discount_percent (u # ts))"
    and le: "\<forall>b \<in> set (u # ts). discount_percent t \<le> discount_percent b"
    by simp_all
  from "3.prems"(3) have h1: "from_hours t \<le> h1" by simp
  show ?case
  proof (cases "h2 < from_hours u")
    case True
    with h1 "3.prems"(4) to show ?thesis by (simp add: tier_matches_def)
  next
    case False
    then have h2: "from_hours u \<le> h2" by simp
    then have no2: "\<not> tier_matches h2 t" using to by (simp add: tier_matches_def)
    show ?thesis
    proof (cases "h1 < from_hours u")
      case True
      then have m1: "tier_matches h1 t" using h1 to by (simp add: tier_matches_def)
      from "3.IH" [OF rest srt, of h2] h2
      obtain b where b: "find (tier_matches h2) (u # ts) = Some b" by auto
      then have "b \<in> set (u # ts)" using find_Some_member by fastforce
      with le have "discount_percent t \<le> discount_percent b" by blast
      with m1 no2 b show ?thesis by simp
    next
      case False
      then have "from_hours (hd (u # ts)) \<le> h1" by simp
      from "3.IH" [OF rest srt this "3.prems"(4)]
      obtain a b where ab: "find (tier_matches h1) (u # ts) = Some a"
        "find (tier_matches h2) (u # ts) = Some b" "discount_percent a \<le> discount_percent b"
        by blast
      from False have "\<not> tier_matches h1 t" using to by (simp add: tier_matches_def)
      with no2 ab show ?thesis by simp
    qed
  qed
qed

text \<open>
  C8, as stated: for a well-formed, non-overlapping tier table the selected discount never
  decreases as the hours grow. A well-formed table may give its later tier the smaller
  discount.
\<close>

theorem descending_discounts:
  "well_formed_tiers descending_tiers
   \<and> (100 :: real) \<le> 600
   \<and> discountPercent descending_tiers 100 = 10
   \<and> discountPercent descending_tiers 600 = 0"
  by (simp add: well_formed_tiers_def discountPercent_def applicableTier_def sort_tiers_def
        descending_tiers_def mk_tier_def tier_matches_def)

text \<open>
  C8, amended. For a well-formed tier table whose \<open>discount_percent\<close> does not decrease
  along ascending \<open>from_hours\<close>, the selected discount is a non-decreasing function of the
  total machine hours, from zero hours on.
\<close>

theorem discount_monotone:
  assumes "well_formed_tiers tiers" and "discounts_ascending tiers"
    and "0 \<le> h1" and "h1 \<le> h2"
  shows "discountPercent tiers h1 \<le> discountPercent tiers h2"
proof -
  from assms(1) obtain t ts where s: "sort_tiers tiers = t # ts"
    and f: "from_hours t \<le> 0" and c: "contiguous (t # ts)"
    by (auto simp add: well_formed_tiers_def split: list.splits)
  from assms(2) s have d: "sorted (map discount_percent (t # ts))"
    by (simp add: discounts_ascending_def)
  from f assms(3) have "from_hours (hd (t # ts)) \<le> h1" by simp
  from contiguous_lookup [OF c d this assms(4)] show ?thesis
    by (auto simp add: discountPercent_def applicableTier_def s)
qed

theorem discount_monotone_witness:
  "well_formed_tiers (pricingTiers DEFAULT_SETTINGS)
   \<and> discounts_ascending (pricingTiers DEFAULT_SETTINGS)
   \<and> discountPercent (pricingTiers DEFAULT_SETTINGS) 600
       \<le> discountPercent (pricingTiers DEFAULT_SETTINGS) 1800"
proof -
  have w: "well_formed_tiers (pricingTiers DEFAULT_SETTINGS)"
    by (simp add: well_formed_tiers_def sort_tiers_def DEFAULT_SETTINGS_def mk_tier_def)
  have a: "discounts_ascending (pricingTiers DEFAULT_SETTINGS)"
    by (simp add: discounts_ascending_def sort_tiers_def DEFAULT_SETTINGS_def mk_tier_def)
  show ?thesis
    using w a discount_monotone [OF w a, of 600 1800] by simp
qed

text \<open>
  C9. Computing a price leaves the supplied \<open>pricingTiers\<close> array as it was given, in
  contents and order. The memo sorts the array in place: a table stored out of order
  comes back reordered.
\<close>

theorem pricing_tiers_reordered:
  "snd (finalPrice_memo (Some quote_600h) 1 (Some quote_data_600h) unsorted_tiers En) = two_tiers
   \<and> two_tiers \<noteq> unsorted_tiers"
  by (simp add: finalPrice_memo_tiers unsorted_tiers_def two_tiers_def mk_tier_def)

text \<open>The array is left as it was only when it is already in ascending order.\<close>

lemma pricing_tiers_kept_when_sorted:
  "sorted (map from_hours tiers) \<Longrightarrow>
   snd (finalPrice_memo rawQuote q quoteData tiers lang) = tiers"
  by (simp add: finalPrice_memo_tiers sort_key_id_if_sorted)

end
